theory Spec2Isabelle
  imports Main "HOL-Library.Word"
begin

unbundle bit_operations_syntax

text \<open>
  sndtag reads metadata from audio files: \<open>New\<close> looks at the first bytes of a stream and,
  for a RIFF file, reads the chunks of a WAV container into a map from names to strings.
  The sources hold the reader in successive drafts. The latest is \<open>New\<close> with the chunk
  walker (\<open>newWav\<close>, \<open>readSubchunks\<close>, \<open>readChunk\<close>, \<open>readFormat\<close>), which returns the
  map. Before it, \<open>NewGetter\<close> returns a \<open>Getter\<close>, and its \<open>newWav\<close> reads the format
  chunk at a fixed place (\<open>expectChunkID\<close>, \<open>readFormatLength\<close>, \<open>readFormat\<close>). Both are
  embedded here, function by function. The two earliest drafts, whose \<open>newWav\<close> stops
  after the format tag and calls no decoder, are not: their \<open>readAudioFormat\<close> and
  \<open>readFormatLength\<close> are those of the draft after them, word for word.
\<close>

section \<open>Errors\<close>

text \<open>
  The Go sources report failures as values of the interface \<open>error\<close>: the two sentinel
  errors of package \<open>io\<close>, and errors built with \<open>fmt.Errorf\<close>. Every format string of
  the sources is one constructor, carrying the arguments the message is formatted from:
  \<^item> \<open>ErrShortCount\<close>: "expected to read %d bytes, actually read %d";
  \<^item> \<open>ErrUnrecognizedHeader\<close>: "unrecognized header: %s";
  \<^item> \<open>ErrExpectedRIFF\<close>: "expected RIFF, got %s";
  \<^item> \<open>ErrExpectedChunkID\<close>: "expected chunk ID %s, got %s";
  \<^item> \<open>ErrFmtChunkLength\<close>: "expected fmt chunk length %d, got %d";
  \<^item> \<open>ErrPcmAudioFormat\<close>: "expected pcm audio format %d, got %d";
  \<^item> \<open>ErrUnrecognizedChunkID\<close>: "unrecognized chunk ID: %s";
  \<^item> \<open>ErrKeyDoesNotExist\<close>: "key does not exist: %s".
\<close>

datatype error =
    EOF
  | ErrUnexpectedEOF
  | ErrShortCount nat nat
  | ErrUnrecognizedHeader string
  | ErrExpectedRIFF string
  | ErrExpectedChunkID string string
  | ErrFmtChunkLength "32 word" "32 word"
  | ErrPcmAudioFormat "16 word" "16 word"
  | ErrUnrecognizedChunkID string
  | ErrKeyDoesNotExist string

section \<open>The Go library functions the sources call\<close>

text \<open>
  A Go byte is an Isabelle \<^typ>\<open>char\<close> (eight bits), so a byte slice and a Go string are
  both a \<^typ>\<open>string\<close>, and \<open>string(header)\<close> is the identity.

  An \<open>io.Reader\<close> is a forward-only byte source. Two implementations occur: the stream
  handed to the entry point, modelled as an in-memory \<open>bytes.Reader\<close> over the bytes not
  yet consumed, and the \<open>io.LimitedReader\<close> that \<open>io.LimitReader\<close> wraps around another
  reader, with the underlying reader \<open>R\<close> and the number \<open>N\<close> of bytes still allowed.
  Every function that reads returns the reader as it is afterwards.
\<close>

datatype reader =
    BytesReader string
  | LimitedReader (LimitedReader_R: reader) (LimitedReader_N: int)

text \<open>
  \<open>r.Read(p)\<close> with \<open>len(p) = n\<close>: the bytes read (their number is Go's first result) and
  the error. \<open>bytes.Reader\<close> reports \<open>io.EOF\<close> once it is exhausted, and otherwise copies
  as many bytes as fit; \<open>LimitedReader\<close> reports \<open>io.EOF\<close> once \<open>N \<le> 0\<close>, and otherwise
  cuts the buffer to \<open>N\<close> bytes and reads from \<open>R\<close>.
\<close>

fun Read :: "reader \<Rightarrow> nat \<Rightarrow> (string \<times> error option) \<times> reader" where
  "Read (BytesReader s) n =
     (if s = [] then (([], Some EOF), BytesReader s)
      else ((take n s, None), BytesReader (drop n s)))"
| "Read (LimitedReader r lim) n =
     (if lim \<le> 0 then (([], Some EOF), LimitedReader r lim)
      else (case Read r (if lim < int n then nat lim else n) of
              ((bs, err), r') \<Rightarrow> ((bs, err), LimitedReader r' (lim - int (length bs)))))"

text \<open>The bytes still to come from the stream underneath a reader.\<close>

fun remaining :: "reader \<Rightarrow> string" where
  "remaining (BytesReader s) = s"
| "remaining (LimitedReader r lim) = remaining r"

lemma Read_progress:
  "Read r n = ((bs, None), r') \<Longrightarrow> 0 < n \<Longrightarrow> bs \<noteq> []"
  by (induction r arbitrary: n bs r') (auto split: if_splits prod.splits)

lemma Read_remaining:
  "Read r n = ((bs, err), r') \<Longrightarrow> remaining r = bs @ remaining r'"
  by (induction r arbitrary: n bs r' err) (auto split: if_splits prod.splits)

text \<open>
  \<open>io.ReadFull(r, buf)\<close> is \<open>io.ReadAtLeast(r, buf, len(buf))\<close>: it calls \<open>Read\<close> until
  \<open>m\<close> bytes are there or \<open>Read\<close> fails; with all \<open>m\<close> bytes the error is dropped, and
  an \<open>io.EOF\<close> after some but not all bytes becomes \<open>io.ErrUnexpectedEOF\<close>.
\<close>

function ReadAtLeast :: "reader \<Rightarrow> nat \<Rightarrow> string \<Rightarrow> (string \<times> error option) \<times> reader" where
  "ReadAtLeast r m buf =
     (if length buf < m then
        (case Read r (m - length buf) of
           ((bs, None), r') \<Rightarrow> ReadAtLeast r' m (buf @ bs)
         | ((bs, Some e), r') \<Rightarrow>
             (if m \<le> length (buf @ bs) then ((buf @ bs, None), r')
              else if 0 < length (buf @ bs) \<and> e = EOF
                then ((buf @ bs, Some ErrUnexpectedEOF), r')
              else ((buf @ bs, Some e), r')))
      else ((buf, None), r))"
  by pat_completeness auto
termination
proof (relation "measure (\<lambda>(r, m, buf). m - length buf)")
  show "wf (measure (\<lambda>(r, m, buf). m - length buf))" by simp
next
  fix r :: reader and m :: nat and buf :: string and x y xa ya
  assume a: "length buf < m" "(x, y) = Read r (m - length buf)" "(xa, ya) = x" "ya = None"
  from a have "Read r (m - length buf) = ((xa, None), y)" by metis
  with a(1) have "xa \<noteq> []" using Read_progress by fastforce
  with a(1) show "((y, m, buf @ xa), r, m, buf) \<in> measure (\<lambda>(r, m, buf). m - length buf)"
    by (cases xa) auto
qed

declare ReadAtLeast.simps [simp del]

definition ReadFull :: "reader \<Rightarrow> nat \<Rightarrow> (string \<times> error option) \<times> reader" where
  "ReadFull r n = ReadAtLeast r n []"

text \<open>
  \<open>binary.LittleEndian.Uint16\<close> and \<open>Uint32\<close>: the bytes of the slice, least significant
  first. The conversion to \<open>int16\<close> or \<open>int32\<close> keeps the bits; \<^const>\<open>sint\<close> reads them
  as two's complement.
\<close>

definition LittleEndian_Uint16 :: "string \<Rightarrow> 16 word" where
  "LittleEndian_Uint16 b = of_char (b ! 0) OR push_bit 8 (of_char (b ! 1))"

definition LittleEndian_Uint32 :: "string \<Rightarrow> 32 word" where
  "LittleEndian_Uint32 b =
     of_char (b ! 0) OR push_bit 8 (of_char (b ! 1)) OR push_bit 16 (of_char (b ! 2))
       OR push_bit 24 (of_char (b ! 3))"

text \<open>
  \<open>binary.Read(r, binary.LittleEndian, &v)\<close> for \<open>v\<close> an \<open>int16\<close> or an \<open>int32\<close>: the
  bytes come from \<open>io.ReadFull\<close>, whose error is returned as it is, and \<open>v\<close> is written
  only on success.
\<close>

definition binary_Read_int16 :: "reader \<Rightarrow> (error + 16 word) \<times> reader" where
  "binary_Read_int16 r =
     (case ReadFull r 2 of
        ((bs, Some e), r') \<Rightarrow> (Inl e, r')
      | ((bs, None), r') \<Rightarrow> (Inr (LittleEndian_Uint16 bs), r'))"

definition binary_Read_int32 :: "reader \<Rightarrow> (error + 32 word) \<times> reader" where
  "binary_Read_int32 r =
     (case ReadFull r 4 of
        ((bs, Some e), r') \<Rightarrow> (Inl e, r')
      | ((bs, None), r') \<Rightarrow> (Inr (LittleEndian_Uint32 bs), r'))"

text \<open>
  \<open>ioutil.Discard\<close> implements \<open>io.ReaderFrom\<close>, so \<open>io.Copy(ioutil.Discard, src)\<close> is its
  \<open>ReadFrom\<close>: it reads buffers of 8192 bytes until \<open>Read\<close> fails, counts the bytes, and
  turns \<open>io.EOF\<close> into success.
\<close>

function discard_ReadFrom :: "reader \<Rightarrow> nat \<Rightarrow> (nat \<times> error option) \<times> reader" where
  "discard_ReadFrom r n =
     (case Read r 8192 of
        ((bs, None), r') \<Rightarrow> discard_ReadFrom r' (n + length bs)
      | ((bs, Some e), r') \<Rightarrow>
          (if e = EOF then ((n + length bs, None), r') else ((n + length bs, Some e), r')))"
  by pat_completeness auto
termination
proof (relation "measure (\<lambda>(r, n). length (remaining r))")
  show "wf (measure (\<lambda>(r, n). length (remaining r)))" by simp
next
  fix r :: reader and n :: nat and x y xa ya
  assume a: "(x, y) = Read r 8192" "(xa, ya) = x" "ya = None"
  from a have rd: "Read r 8192 = ((xa, None), y)" by metis
  then have "xa \<noteq> []" using Read_progress by fastforce
  moreover from rd have "remaining r = xa @ remaining y" by (rule Read_remaining)
  ultimately show "((y, n + length xa), r, n) \<in> measure (\<lambda>(r, n). length (remaining r))"
    by (cases xa) auto
qed

declare discard_ReadFrom.simps [simp del]

text \<open>
  \<open>io.CopyN(ioutil.Discard, src, n)\<close> copies from \<open>io.LimitReader(src, n)\<close>; when all \<open>n\<close>
  bytes were written it succeeds, and when fewer were and no error came it reports
  \<open>io.EOF\<close>. The reader returned is \<open>src\<close> afterwards.
\<close>

definition CopyN_Discard :: "reader \<Rightarrow> int \<Rightarrow> (int \<times> error option) \<times> reader" where
  "CopyN_Discard src n =
     (case discard_ReadFrom (LimitedReader src n) 0 of
        ((written, err), lr) \<Rightarrow>
          (if int written = n then ((n, None), LimitedReader_R lr)
           else if int written < n \<and> err = None
             then ((int written, Some EOF), LimitedReader_R lr)
           else ((int written, err), LimitedReader_R lr)))"

text \<open>
  \<open>strconv.FormatInt(i, 10)\<close> and \<open>strconv.Itoa\<close>: the decimal digits, most significant
  first, after a minus sign for a negative number.
\<close>

fun formatBits :: "nat \<Rightarrow> string" where
  "formatBits u =
     (if u < 10 then [''0123456789'' ! u]
      else formatBits (u div 10) @ [''0123456789'' ! (u mod 10)])"

declare formatBits.simps [simp del]

definition FormatInt :: "int \<Rightarrow> string" where
  "FormatInt i = (if i < 0 then CHR ''-'' # formatBits (nat (- i)) else formatBits (nat i))"

definition Itoa :: "int \<Rightarrow> string" where
  "Itoa i = FormatInt i"

section \<open>The wav reader\<close>

text \<open>
  \<open>type wav struct { length int32; metadata map[string]string }\<close>. The earlier drafts
  call the map \<open>store\<close>. The methods have value receivers, but a Go map is a reference:
  what a method stores is seen by its caller, so every method returns the \<open>wav\<close> as it is
  afterwards, also when it fails.
\<close>

record wav =
  length_wav :: "32 word"
  metadata :: "string \<rightharpoonup> string"

subsection \<open>Reading four-character codes and chunk headers\<close>

text \<open>\<open>readFourCC\<close>: one \<open>Read\<close> of four bytes; its error first, then the count.\<close>

definition readFourCC :: "reader \<Rightarrow> (error + string) \<times> reader" where
  "readFourCC r =
     (case Read r 4 of
        ((chunkID, Some e), r') \<Rightarrow> (Inl e, r')
      | ((chunkID, None), r') \<Rightarrow>
          (if 4 \<noteq> length chunkID then (Inl (ErrShortCount 4 (length chunkID)), r')
           else (Inr chunkID, r')))"

definition expectFourCC :: "reader \<Rightarrow> string \<Rightarrow> error option \<times> reader" where
  "expectFourCC r expected =
     (case readFourCC r of
        (Inl e, r') \<Rightarrow> (Some e, r')
      | (Inr chunkID, r') \<Rightarrow>
          (if expected \<noteq> chunkID then (Some (ErrExpectedChunkID expected chunkID), r')
           else (None, r')))"

text \<open>
  \<open>readChunk\<close> returns the chunk identifier, the chunk length and \<open>data\<close>, a reader
  limited to \<open>length\<close> bytes of \<open>r\<close>. The second component is \<open>r\<close> itself afterwards.
\<close>

definition readChunk :: "reader \<Rightarrow> (error + string \<times> 32 word \<times> reader) \<times> reader" where
  "readChunk r =
     (case readFourCC r of
        (Inl e, r') \<Rightarrow> (Inl e, r')
      | (Inr idb, r') \<Rightarrow>
          (case binary_Read_int32 r' of
             (Inl e, r'') \<Rightarrow> (Inl e, r'')
           | (Inr len, r'') \<Rightarrow> (Inr (idb, len, LimitedReader r'' (sint len)), r'')))"

subsection \<open>The fmt chunk\<close>

definition readAudioFormat :: "wav \<Rightarrow> reader \<Rightarrow> (error option \<times> wav) \<times> reader" where
  "readAudioFormat w r =
     (case binary_Read_int16 r of
        (Inl e, r') \<Rightarrow> ((Some e, w), r')
      | (Inr audioFormat, r') \<Rightarrow>
          (if 1 \<noteq> audioFormat then ((Some (ErrPcmAudioFormat 1 audioFormat), w), r')
           else ((None, w\<lparr>metadata := (metadata w)(''AudioFormat'' \<mapsto> FormatInt (sint audioFormat))\<rparr>),
                 r')))"

definition readInt16 :: "wav \<Rightarrow> reader \<Rightarrow> string \<Rightarrow> (error option \<times> wav) \<times> reader" where
  "readInt16 w r prop =
     (case binary_Read_int16 r of
        (Inl e, r') \<Rightarrow> ((Some e, w), r')
      | (Inr val, r') \<Rightarrow>
          ((None, w\<lparr>metadata := (metadata w)(prop \<mapsto> FormatInt (sint val))\<rparr>), r'))"

definition readInt32 :: "wav \<Rightarrow> reader \<Rightarrow> string \<Rightarrow> (error option \<times> wav) \<times> reader" where
  "readInt32 w r prop =
     (case binary_Read_int32 r of
        (Inl e, r') \<Rightarrow> ((Some e, w), r')
      | (Inr val, r') \<Rightarrow>
          ((None, w\<lparr>metadata := (metadata w)(prop \<mapsto> Itoa (sint val))\<rparr>), r'))"

text \<open>\<open>readFormat\<close> of the chunk walker: the six fields of the payload, in order.\<close>

definition readFormat :: "wav \<Rightarrow> reader \<Rightarrow> (error option \<times> wav) \<times> reader" where
  "readFormat w r =
     (case readAudioFormat w r of
        ((Some e, w1), r1) \<Rightarrow> ((Some e, w1), r1)
      | ((None, w1), r1) \<Rightarrow>
     (case readInt16 w1 r1 ''NumChannels'' of
        ((Some e, w2), r2) \<Rightarrow> ((Some e, w2), r2)
      | ((None, w2), r2) \<Rightarrow>
     (case readInt32 w2 r2 ''SampleRate'' of
        ((Some e, w3), r3) \<Rightarrow> ((Some e, w3), r3)
      | ((None, w3), r3) \<Rightarrow>
     (case readInt32 w3 r3 ''ByteRate'' of
        ((Some e, w4), r4) \<Rightarrow> ((Some e, w4), r4)
      | ((None, w4), r4) \<Rightarrow>
     (case readInt16 w4 r4 ''BlockAlign'' of
        ((Some e, w5), r5) \<Rightarrow> ((Some e, w5), r5)
      | ((None, w5), r5) \<Rightarrow>
     (case readInt16 w5 r5 ''BitRate'' of
        ((Some e, w6), r6) \<Rightarrow> ((Some e, w6), r6)
      | ((None, w6), r6) \<Rightarrow> ((None, w6), r6)))))))"

definition readList :: "wav \<Rightarrow> reader \<Rightarrow> error option \<times> reader" where
  "readList w r = expectFourCC r ''INFO''"

definition readInfo :: "wav \<Rightarrow> reader \<Rightarrow> error option \<times> reader" where
  "readInfo w r = (None, r)"

subsection \<open>The chunk walker\<close>

text \<open>
  \<open>readSubchunks\<close> reads one chunk header and dispatches on the identifier. The \<open>fmt\<close>,
  \<open>LIST\<close> and \<open>INFO\<close> cases read through \<open>data\<close>, the \<open>data\<close> case discards from \<open>r\<close>;
  either way the reader returned is \<open>r\<close> afterwards.
\<close>

definition readSubchunks :: "wav \<Rightarrow> reader \<Rightarrow> (error option \<times> wav) \<times> reader" where
  "readSubchunks w r =
     (case readChunk r of
        (Inl e, r') \<Rightarrow> ((Some e, w), r')
      | (Inr (ident, len, data), r') \<Rightarrow>
          (if ident = ''fmt '' then
             (case readFormat w data of
                ((err, w'), data') \<Rightarrow> ((err, w'), LimitedReader_R data'))
           else if ident = ''data'' then
             (case CopyN_Discard r' (sint len) of
                ((written, err), r'') \<Rightarrow> ((err, w), r''))
           else if ident = ''LIST'' then
             (case readList w data of
                (err, data') \<Rightarrow> ((err, w), LimitedReader_R data'))
           else if ident = ''INFO'' then
             (case readInfo w data of
                (err, data') \<Rightarrow> ((err, w), LimitedReader_R data'))
           else ((Some (ErrUnrecognizedChunkID ident), w), r')))"

text \<open>
  \<open>newWav\<close> returns the map and the error, \<open>nil\<close> being \<^const>\<open>None\<close>. The RIFF magic has
  been read already.
\<close>

definition newWav :: "reader \<Rightarrow> ((string \<rightharpoonup> string) option \<times> error option) \<times> reader" where
  "newWav r =
     (case binary_Read_int32 r of
        (Inl e, r1) \<Rightarrow> ((None, Some e), r1)
      | (Inr len, r1) \<Rightarrow>
          (case expectFourCC r1 ''WAVE'' of
             (Some e, r2) \<Rightarrow> ((None, Some e), r2)
           | (None, r2) \<Rightarrow>
               (case readSubchunks \<lparr>length_wav = len, metadata = Map.empty\<rparr> r2 of
                  ((Some e, w), r3) \<Rightarrow> ((None, Some e), r3)
                | ((None, w), r3) \<Rightarrow> ((Some (metadata w), None), r3))))"

subsection \<open>The entry point\<close>

definition checkRIFFLastByte :: "reader \<Rightarrow> string \<Rightarrow> error option \<times> reader" where
  "checkRIFFLastByte r header =
     (case Read r 1 of
        ((headerLastByte, Some e), r') \<Rightarrow> (Some e, r')
      | ((headerLastByte, None), r') \<Rightarrow>
          (if 1 \<noteq> length headerLastByte then (Some (ErrShortCount 1 (length headerLastByte)), r')
           else if headerLastByte ! 0 \<noteq> CHR ''F''
             then (Some (ErrExpectedRIFF (header @ headerLastByte)), r')
           else (None, r')))"

text \<open>
  \<open>New\<close>. The reader of ID3 tags, \<open>newID3\<close>, is not part of the sources: it is the
  parameter \<open>newID3\<close>. An \<open>io.EOF\<close> of \<open>newWav\<close> is not returned: \<open>New\<close> then returns what
  \<open>newWav\<close> returned as its map, with a \<open>nil\<close> error.
\<close>

definition New ::
  "(reader \<Rightarrow> ((string \<rightharpoonup> string) option \<times> error option) \<times> reader) \<Rightarrow> reader
     \<Rightarrow> ((string \<rightharpoonup> string) option \<times> error option) \<times> reader" where
  "New newID3 r =
     (case Read r 3 of
        ((header, Some e), r1) \<Rightarrow> ((None, Some e), r1)
      | ((header, None), r1) \<Rightarrow>
          (if 3 \<noteq> length header then ((None, Some (ErrShortCount 3 (length header))), r1)
           else if header = ''TAG'' then newID3 r1
           else if header = ''RIF'' then
             (case checkRIFFLastByte r1 header of
                (Some e, r2) \<Rightarrow> ((None, Some e), r2)
              | (None, r2) \<Rightarrow>
                  (case newWav r2 of
                     ((getter, err), r3) \<Rightarrow>
                       (if err \<noteq> None \<and> err \<noteq> Some EOF then ((None, err), r3)
                        else ((getter, None), r3))))
           else ((None, Some (ErrUnrecognizedHeader header)), r1)))"

section \<open>The earlier draft: a Getter over a fixed layout\<close>

text \<open>
  In the draft that \<open>NewGetter\<close> belongs to, \<open>newWav\<close> returns a \<open>Getter\<close> and the format
  chunk is read at a fixed place: \<open>readFormat\<close> itself expects the identifier \<open>fmt\<close> and
  the length 16 before the fields. Its \<open>readAudioFormat\<close>, \<open>readInt16\<close> and \<open>readInt32\<close>
  are those above, word for word. Where a name is used by both drafts, the function of
  this draft has the suffix \<open>_getter\<close>.

  A \<open>Getter\<close> is an interface with the one method \<open>Get\<close>, so it is that method.
\<close>

type_synonym Getter = "string \<Rightarrow> string \<times> error option"

definition Get :: "wav \<Rightarrow> Getter" where
  "Get w key =
     (case metadata w key of
        None \<Rightarrow> ([], Some (ErrKeyDoesNotExist key))
      | Some v \<Rightarrow> (v, None))"

definition readChunkID :: "wav \<Rightarrow> reader \<Rightarrow> (error + string) \<times> reader" where
  "readChunkID w r =
     (case Read r 4 of
        ((chunkID, Some e), r') \<Rightarrow> (Inl e, r')
      | ((chunkID, None), r') \<Rightarrow>
          (if 4 \<noteq> length chunkID then (Inl (ErrShortCount 4 (length chunkID)), r')
           else (Inr chunkID, r')))"

definition expectChunkID :: "wav \<Rightarrow> reader \<Rightarrow> string \<Rightarrow> error option \<times> reader" where
  "expectChunkID w r expected =
     (case readChunkID w r of
        (Inl e, r') \<Rightarrow> (Some e, r')
      | (Inr chunkID, r') \<Rightarrow>
          (if expected \<noteq> chunkID then (Some (ErrExpectedChunkID expected chunkID), r')
           else (None, r')))"

definition readFormatLength :: "wav \<Rightarrow> reader \<Rightarrow> error option \<times> reader" where
  "readFormatLength w r =
     (case binary_Read_int32 r of
        (Inl e, r') \<Rightarrow> (Some e, r')
      | (Inr len, r') \<Rightarrow>
          (if 16 \<noteq> len then (Some (ErrFmtChunkLength 16 len), r') else (None, r')))"

definition readFormat_getter :: "wav \<Rightarrow> reader \<Rightarrow> (error option \<times> wav) \<times> reader" where
  "readFormat_getter w r =
     (case expectChunkID w r ''fmt '' of
        (Some e, ra) \<Rightarrow> ((Some e, w), ra)
      | (None, ra) \<Rightarrow>
     (case readFormatLength w ra of
        (Some e, rb) \<Rightarrow> ((Some e, w), rb)
      | (None, rb) \<Rightarrow>
     (case readAudioFormat w rb of
        ((Some e, w1), r1) \<Rightarrow> ((Some e, w1), r1)
      | ((None, w1), r1) \<Rightarrow>
     (case readInt16 w1 r1 ''NumChannels'' of
        ((Some e, w2), r2) \<Rightarrow> ((Some e, w2), r2)
      | ((None, w2), r2) \<Rightarrow>
     (case readInt32 w2 r2 ''SampleRate'' of
        ((Some e, w3), r3) \<Rightarrow> ((Some e, w3), r3)
      | ((None, w3), r3) \<Rightarrow>
     (case readInt32 w3 r3 ''ByteRate'' of
        ((Some e, w4), r4) \<Rightarrow> ((Some e, w4), r4)
      | ((None, w4), r4) \<Rightarrow>
     (case readInt16 w4 r4 ''BlockAlign'' of
        ((Some e, w5), r5) \<Rightarrow> ((Some e, w5), r5)
      | ((None, w5), r5) \<Rightarrow>
     (case readInt16 w5 r5 ''BitRate'' of
        ((Some e, w6), r6) \<Rightarrow> ((Some e, w6), r6)
      | ((None, w6), r6) \<Rightarrow> ((None, w6), r6)))))))))"

definition newWav_getter :: "reader \<Rightarrow> (Getter option \<times> error option) \<times> reader" where
  "newWav_getter r =
     (case binary_Read_int32 r of
        (Inl e, r1) \<Rightarrow> ((None, Some e), r1)
      | (Inr len, r1) \<Rightarrow>
          (case expectChunkID \<lparr>length_wav = len, metadata = Map.empty\<rparr> r1 ''WAVE'' of
             (Some e, r2) \<Rightarrow> ((None, Some e), r2)
           | (None, r2) \<Rightarrow>
               (case readFormat_getter \<lparr>length_wav = len, metadata = Map.empty\<rparr> r2 of
                  ((Some e, w), r3) \<Rightarrow> ((None, Some e), r3)
                | ((None, w), r3) \<Rightarrow> ((Some (Get w), None), r3))))"

text \<open>\<open>NewGetter\<close>, with the reader of ID3 tags as the parameter \<open>newID3\<close>.\<close>

definition NewGetter ::
  "(reader \<Rightarrow> (Getter option \<times> error option) \<times> reader) \<Rightarrow> reader
     \<Rightarrow> (Getter option \<times> error option) \<times> reader" where
  "NewGetter newID3 r =
     (case Read r 3 of
        ((header, Some e), r1) \<Rightarrow> ((None, Some e), r1)
      | ((header, None), r1) \<Rightarrow>
          (if 3 \<noteq> length header then ((None, Some (ErrShortCount 3 (length header))), r1)
           else if header = ''TAG'' then newID3 r1
           else if header = ''RIF'' then
             (case Read r1 1 of
                ((headerLastByte, Some e), r2) \<Rightarrow> ((None, Some e), r2)
              | ((headerLastByte, None), r2) \<Rightarrow>
                  (if 1 \<noteq> length headerLastByte
                     then ((None, Some (ErrShortCount 1 (length headerLastByte))), r2)
                   else if headerLastByte ! 0 \<noteq> CHR ''F''
                     then ((None, Some (ErrExpectedRIFF (header @ headerLastByte))), r2)
                   else newWav_getter r2))
           else ((None, Some (ErrUnrecognizedHeader header)), r1)))"

section \<open>The reader of ID3 tags\<close>

text \<open>
  Modelled from the spec: \<open>newID3\<close> is called by \<open>New\<close> and \<open>NewGetter\<close> and is not in the
  sources. The spec has the reader of legacy tags as an external collaborator, a stub to be
  implemented, \<open>read_legacy_tags(reader) -> Result<Mapping<String,String>>\<close>. The
  functions above take it as a parameter; where a closed statement needs one, this stub,
  which reads nothing and returns neither a result nor an error, stands in. No statement
  below takes the \<open>TAG\<close> branch.
\<close>

definition newID3_absent :: "reader \<Rightarrow> ('a option \<times> error option) \<times> reader" where
  "newID3_absent r = ((None, None), r)"

section \<open>Evaluating the library functions\<close>

lemma ReadAtLeast_done: "m \<le> length buf \<Longrightarrow> ReadAtLeast r m buf = ((buf, None), r)"
  by (simp add: ReadAtLeast.simps)

lemma ReadFull_BytesReader:
  "ReadFull (BytesReader s) n =
     (if n = 0 then (([], None), BytesReader s)
      else if s = [] then (([], Some EOF), BytesReader s)
      else if n \<le> length s then ((take n s, None), BytesReader (drop n s))
      else ((s, Some ErrUnexpectedEOF), BytesReader []))"
proof -
  consider "n = 0" | "n \<noteq> 0" "s = []" | "n \<noteq> 0" "s \<noteq> []" "n \<le> length s"
    | "n \<noteq> 0" "s \<noteq> []" "length s < n" by linarith
  then show ?thesis
  proof cases
    case 1
    then show ?thesis by (simp add: ReadFull_def ReadAtLeast.simps)
  next
    case 2
    then show ?thesis by (simp add: ReadFull_def ReadAtLeast.simps [of _ n "[]"])
  next
    case 3
    then show ?thesis
      by (simp add: ReadFull_def ReadAtLeast.simps [of _ n "[]"] ReadAtLeast_done)
  next
    case 4
    then show ?thesis
      by (simp add: ReadFull_def ReadAtLeast.simps [of _ n "[]"] ReadAtLeast.simps [of _ n s])
  qed
qed

lemma ReadFull_LimitedReader_ok:
  assumes "n \<le> length s" "int n \<le> lim"
  shows "ReadFull (LimitedReader (BytesReader s) lim) n =
           ((take n s, None), LimitedReader (BytesReader (drop n s)) (lim - int n))"
proof (cases "n = 0")
  case True
  then show ?thesis by (simp add: ReadFull_def ReadAtLeast.simps)
next
  case False
  with assms have "s \<noteq> []" "0 < lim" "\<not> lim < int n" by auto
  with assms False show ?thesis
    by (simp add: ReadFull_def ReadAtLeast.simps [of _ n "[]"] ReadAtLeast_done)
qed

lemma formatBits_digit: "u < 10 \<Longrightarrow> formatBits u = [''0123456789'' ! u]"
  by (simp add: formatBits.simps)

lemma formatBits_more:
  "10 \<le> u \<Longrightarrow> formatBits u = formatBits (u div 10) @ [''0123456789'' ! (u mod 10)]"
  by (subst formatBits.simps) simp

lemmas FormatInt_eval = FormatInt_def Itoa_def formatBits_digit formatBits_more

section \<open>Reads from a stream whose next bytes are known\<close>

lemma binary_Read_int16_bytes:
  "binary_Read_int16 (BytesReader (a # b # s)) = (Inr (LittleEndian_Uint16 [a, b]), BytesReader s)"
  by (simp add: binary_Read_int16_def ReadFull_BytesReader)

lemma binary_Read_int32_bytes:
  "binary_Read_int32 (BytesReader (a # b # c # d # s)) =
     (Inr (LittleEndian_Uint32 [a, b, c, d]), BytesReader s)"
  by (simp add: binary_Read_int32_def ReadFull_BytesReader)

lemma binary_Read_int16_limited:
  "2 \<le> lim \<Longrightarrow>
   binary_Read_int16 (LimitedReader (BytesReader (a # b # s)) lim) =
     (Inr (LittleEndian_Uint16 [a, b]), LimitedReader (BytesReader s) (lim - 2))"
  by (simp add: binary_Read_int16_def ReadFull_LimitedReader_ok)

lemma binary_Read_int32_limited:
  "4 \<le> lim \<Longrightarrow>
   binary_Read_int32 (LimitedReader (BytesReader (a # b # c # d # s)) lim) =
     (Inr (LittleEndian_Uint32 [a, b, c, d]), LimitedReader (BytesReader s) (lim - 4))"
  by (simp add: binary_Read_int32_def ReadFull_LimitedReader_ok)

lemma readFourCC_bytes:
  "readFourCC (BytesReader (a # b # c # d # s)) = (Inr [a, b, c, d], BytesReader s)"
  by (simp add: readFourCC_def)

lemma readChunkID_bytes:
  "readChunkID w (BytesReader (a # b # c # d # s)) = (Inr [a, b, c, d], BytesReader s)"
  by (simp add: readChunkID_def)

lemma readChunk_bytes:
  "readChunk (BytesReader (a # b # c # d # k0 # k1 # k2 # k3 # s)) =
     (Inr ([a, b, c, d], LittleEndian_Uint32 [k0, k1, k2, k3],
           LimitedReader (BytesReader s) (sint (LittleEndian_Uint32 [k0, k1, k2, k3]))),
      BytesReader s)"
  by (simp add: readChunk_def readFourCC_bytes binary_Read_int32_bytes)

lemma New_RIFF:
  "New newID3 (BytesReader (CHR ''R'' # CHR ''I'' # CHR ''F'' # CHR ''F'' # s)) =
     (case newWav (BytesReader s) of
        ((getter, err), r3) \<Rightarrow>
          (if err \<noteq> None \<and> err \<noteq> Some EOF then ((None, err), r3) else ((getter, None), r3)))"
  by (simp add: New_def checkRIFFLastByte_def)

lemma NewGetter_RIFF:
  "NewGetter newID3 (BytesReader (CHR ''R'' # CHR ''I'' # CHR ''F'' # CHR ''F'' # s)) =
     newWav_getter (BytesReader s)"
  by (simp add: NewGetter_def)

lemma newWav_WAVE:
  "newWav (BytesReader (l0 # l1 # l2 # l3 # CHR ''W'' # CHR ''A'' # CHR ''V'' # CHR ''E'' # s)) =
     (case readSubchunks \<lparr>length_wav = LittleEndian_Uint32 [l0, l1, l2, l3], metadata = Map.empty\<rparr>
             (BytesReader s) of
        ((Some e, w), r3) \<Rightarrow> ((None, Some e), r3)
      | ((None, w), r3) \<Rightarrow> ((Some (metadata w), None), r3))"
  by (simp add: newWav_def binary_Read_int32_bytes expectFourCC_def readFourCC_bytes)

lemma readFormat_six:
  assumes "16 \<le> lim"
  shows "readFormat w (LimitedReader (BytesReader
             (CHR 0x01 # CHR 0x00 # n0 # n1 # s0 # s1 # s2 # s3 # y0 # y1 # y2 # y3
                # a0 # a1 # d0 # d1 # rest)) lim) =
     ((None, w\<lparr>metadata := (metadata w)
          (''AudioFormat'' \<mapsto> ''1'',
           ''NumChannels'' \<mapsto> FormatInt (sint (LittleEndian_Uint16 [n0, n1])),
           ''SampleRate'' \<mapsto> Itoa (sint (LittleEndian_Uint32 [s0, s1, s2, s3])),
           ''ByteRate'' \<mapsto> Itoa (sint (LittleEndian_Uint32 [y0, y1, y2, y3])),
           ''BlockAlign'' \<mapsto> FormatInt (sint (LittleEndian_Uint16 [a0, a1])),
           ''BitRate'' \<mapsto> FormatInt (sint (LittleEndian_Uint16 [d0, d1])))\<rparr>),
      LimitedReader (BytesReader rest) (lim - 16))"
  using assms
  by (simp add: readFormat_def readAudioFormat_def readInt16_def readInt32_def
      binary_Read_int16_limited binary_Read_int32_limited LittleEndian_Uint16_def
      formatBits_digit FormatInt_def)

lemma readSubchunks_fmt:
  "readSubchunks w (BytesReader (CHR ''f'' # CHR ''m'' # CHR ''t'' # CHR '' '' # k0 # k1 # k2 # k3 # s)) =
     (case readFormat w (LimitedReader (BytesReader s) (sint (LittleEndian_Uint32 [k0, k1, k2, k3]))) of
        ((err, w'), data') \<Rightarrow> ((err, w'), LimitedReader_R data'))"
  by (simp add: readSubchunks_def readChunk_bytes)

lemma sint_16: "sint (LittleEndian_Uint32 [CHR 0x10, CHR 0x00, CHR 0x00, CHR 0x00]) = 16"
  by (simp add: LittleEndian_Uint32_def)

lemma readFormat_getter_six:
  "readFormat_getter w (BytesReader
       (CHR ''f'' # CHR ''m'' # CHR ''t'' # CHR '' '' # CHR 0x10 # CHR 0x00 # CHR 0x00 # CHR 0x00
          # CHR 0x01 # CHR 0x00 # n0 # n1 # s0 # s1 # s2 # s3 # y0 # y1 # y2 # y3
          # a0 # a1 # d0 # d1 # rest)) =
     ((None, w\<lparr>metadata := (metadata w)
          (''AudioFormat'' \<mapsto> ''1'',
           ''NumChannels'' \<mapsto> FormatInt (sint (LittleEndian_Uint16 [n0, n1])),
           ''SampleRate'' \<mapsto> Itoa (sint (LittleEndian_Uint32 [s0, s1, s2, s3])),
           ''ByteRate'' \<mapsto> Itoa (sint (LittleEndian_Uint32 [y0, y1, y2, y3])),
           ''BlockAlign'' \<mapsto> FormatInt (sint (LittleEndian_Uint16 [a0, a1])),
           ''BitRate'' \<mapsto> FormatInt (sint (LittleEndian_Uint16 [d0, d1])))\<rparr>),
      BytesReader rest)"
proof -
  have len: "LittleEndian_Uint32 [CHR 0x10, CHR 0x00, CHR 0x00, CHR 0x00] = 16"
    by (simp add: LittleEndian_Uint32_def)
  have one: "LittleEndian_Uint16 [CHR 0x01, CHR 0x00] = 1"
    by (simp add: LittleEndian_Uint16_def)
  show ?thesis
    by (simp add: readFormat_getter_def expectChunkID_def readChunkID_bytes readFormatLength_def
        readAudioFormat_def readInt16_def readInt32_def
        binary_Read_int16_bytes binary_Read_int32_bytes len one formatBits_digit FormatInt_def)
qed

lemma newWav_getter_WAVE:
  "newWav_getter (BytesReader (l0 # l1 # l2 # l3 # CHR ''W'' # CHR ''A'' # CHR ''V'' # CHR ''E'' # s)) =
     (case readFormat_getter \<lparr>length_wav = LittleEndian_Uint32 [l0, l1, l2, l3], metadata = Map.empty\<rparr>
             (BytesReader s) of
        ((Some e, w), r3) \<Rightarrow> ((None, Some e), r3)
      | ((None, w), r3) \<Rightarrow> ((Some (Get w), None), r3))"
  by (simp add: newWav_getter_def binary_Read_int32_bytes expectChunkID_def readChunkID_bytes)

lemma fields_44100:
  "FormatInt (sint (LittleEndian_Uint16 [CHR 0x02, CHR 0x00])) = ''2''"
  "Itoa (sint (LittleEndian_Uint32 [CHR 0x44, CHR 0xAC, CHR 0x00, CHR 0x00])) = ''44100''"
  "Itoa (sint (LittleEndian_Uint32 [CHR 0x10, CHR 0xB1, CHR 0x02, CHR 0x00])) = ''176400''"
  "FormatInt (sint (LittleEndian_Uint16 [CHR 0x04, CHR 0x00])) = ''4''"
  "FormatInt (sint (LittleEndian_Uint16 [CHR 0x10, CHR 0x00])) = ''16''"
  by (simp_all add: LittleEndian_Uint16_def LittleEndian_Uint32_def FormatInt_eval)

lemma sint_4: "sint (LittleEndian_Uint32 [CHR 0x04, CHR 0x00, CHR 0x00, CHR 0x00]) = 4"
  by (simp add: LittleEndian_Uint32_def)

lemma sint_18: "sint (LittleEndian_Uint32 [CHR 0x12, CHR 0x00, CHR 0x00, CHR 0x00]) = 18"
  by (simp add: LittleEndian_Uint32_def)

lemma le16_3: "LittleEndian_Uint16 [CHR 0x03, CHR 0x00] = 3"
  by (simp add: LittleEndian_Uint16_def)

lemma le32_18: "LittleEndian_Uint32 [CHR 0x12, CHR 0x00, CHR 0x00, CHR 0x00] = 18"
  by (simp add: LittleEndian_Uint32_def)

lemma FormatInt_one: "FormatInt 1 = ''1''"
  by (simp add: FormatInt_def formatBits_digit)

section \<open>Discarding the audio data\<close>

text \<open>
  The copy loop under \<open>io.CopyN\<close> takes exactly the bytes the limit allows, in
  buffers of 8192 bytes, when the stream has that many: \<open>io.CopyN\<close> to
  \<open>ioutil.Discard\<close> advances the reader by exactly the payload.
\<close>

lemma discard_ReadFrom_limited:
  "0 \<le> lim \<Longrightarrow> nat lim \<le> length s \<Longrightarrow>
   discard_ReadFrom (LimitedReader (BytesReader s) lim) n =
     ((n + nat lim, None), LimitedReader (BytesReader (drop (nat lim) s)) 0)"
proof (induction "nat lim" arbitrary: lim s n rule: less_induct)
  case less
  show ?case
  proof (cases "lim = 0")
    case True
    then show ?thesis by (simp add: discard_ReadFrom.simps [of "LimitedReader (BytesReader s) 0"])
  next
    case False
    with less.prems have pos: "0 < lim" and s: "s \<noteq> []" by auto
    define k where "k = (if lim < 8192 then nat lim else 8192)"
    have k: "0 < k" "k \<le> nat lim" "k \<le> length s"
      using pos less.prems by (auto simp add: k_def)
    have rd: "Read (LimitedReader (BytesReader s) lim) 8192 =
                ((take k s, None), LimitedReader (BytesReader (drop k s)) (lim - int k))"
      using pos s k by (auto simp add: k_def)
    have step: "discard_ReadFrom (LimitedReader (BytesReader s) lim) n =
                  discard_ReadFrom (LimitedReader (BytesReader (drop k s)) (lim - int k))
                    (n + k)"
      using k by (subst discard_ReadFrom.simps, simp only: rd) simp
    have "discard_ReadFrom (LimitedReader (BytesReader (drop k s)) (lim - int k)) (n + k) =
            ((n + k + nat (lim - int k), None),
             LimitedReader (BytesReader (drop (nat (lim - int k)) (drop k s))) 0)"
      using k pos less.prems by (intro less.hyps) auto
    moreover have "n + k + nat (lim - int k) = n + nat lim" using k by auto
    moreover have "drop (nat (lim - int k)) (drop k s) = drop (nat lim) s"
      using k by (simp add: nat_diff_distrib')
    ultimately show ?thesis using step by simp
  qed
qed

lemma CopyN_Discard_exact:
  "CopyN_Discard (BytesReader (payload @ rest)) (int (length payload)) =
     ((int (length payload), None), BytesReader rest)"
  by (simp add: CopyN_Discard_def discard_ReadFrom_limited)

lemma readSubchunks_data:
  "readSubchunks w (BytesReader (CHR ''d'' # CHR ''a'' # CHR ''t'' # CHR ''a'' # k0 # k1 # k2 # k3 # s)) =
     (case CopyN_Discard (BytesReader s) (sint (LittleEndian_Uint32 [k0, k1, k2, k3])) of
        ((written, err), r'') \<Rightarrow> ((err, w), r''))"
  by (simp add: readSubchunks_def readChunk_bytes)

section \<open>The minimal container, evaluated\<close>

lemma newWav_minimal:
  "newWav (BytesReader (''abcd'' @ ''WAVE'' @ ''fmt ''
        @ [CHR 0x10, CHR 0x00, CHR 0x00, CHR 0x00]
        @ [CHR 0x01, CHR 0x00] @ [CHR 0x02, CHR 0x00]
        @ [CHR 0x44, CHR 0xAC, CHR 0x00, CHR 0x00] @ [CHR 0x10, CHR 0xB1, CHR 0x02, CHR 0x00]
        @ [CHR 0x04, CHR 0x00] @ [CHR 0x10, CHR 0x00])) =
     ((Some [''AudioFormat'' \<mapsto> ''1'', ''NumChannels'' \<mapsto> ''2'', ''SampleRate'' \<mapsto> ''44100'',
             ''ByteRate'' \<mapsto> ''176400'', ''BlockAlign'' \<mapsto> ''4'', ''BitRate'' \<mapsto> ''16''],
       None), BytesReader [])"
  by (simp add: newWav_WAVE readSubchunks_fmt sint_16 readFormat_six fields_44100)

lemma newWav_getter_minimal:
  "newWav_getter (BytesReader (''abcd'' @ ''WAVE'' @ ''fmt ''
        @ [CHR 0x10, CHR 0x00, CHR 0x00, CHR 0x00]
        @ [CHR 0x01, CHR 0x00] @ [CHR 0x02, CHR 0x00]
        @ [CHR 0x44, CHR 0xAC, CHR 0x00, CHR 0x00] @ [CHR 0x10, CHR 0xB1, CHR 0x02, CHR 0x00]
        @ [CHR 0x04, CHR 0x00] @ [CHR 0x10, CHR 0x00])) =
     ((Some (Get \<lparr>length_wav = LittleEndian_Uint32 ''abcd'',
                 metadata = [''AudioFormat'' \<mapsto> ''1'', ''NumChannels'' \<mapsto> ''2'',
                   ''SampleRate'' \<mapsto> ''44100'', ''ByteRate'' \<mapsto> ''176400'',
                   ''BlockAlign'' \<mapsto> ''4'', ''BitRate'' \<mapsto> ''16'']\<rparr>),
       None), BytesReader [])"
  by (simp add: newWav_getter_WAVE readFormat_getter_six fields_44100)

lemma New_minimal:
  "New newID3_absent (BytesReader (''RIFF'' @ ''abcd'' @ ''WAVE'' @ ''fmt ''
        @ [CHR 0x10, CHR 0x00, CHR 0x00, CHR 0x00]
        @ [CHR 0x01, CHR 0x00] @ [CHR 0x02, CHR 0x00]
        @ [CHR 0x44, CHR 0xAC, CHR 0x00, CHR 0x00] @ [CHR 0x10, CHR 0xB1, CHR 0x02, CHR 0x00]
        @ [CHR 0x04, CHR 0x00] @ [CHR 0x10, CHR 0x00])) =
     ((Some [''AudioFormat'' \<mapsto> ''1'', ''NumChannels'' \<mapsto> ''2'', ''SampleRate'' \<mapsto> ''44100'',
       ''ByteRate'' \<mapsto> ''176400'', ''BlockAlign'' \<mapsto> ''4'', ''BitRate'' \<mapsto> ''16''],
       None), BytesReader [])"
  using newWav_minimal by (simp add: New_RIFF)

lemma NewGetter_minimal:
  "NewGetter newID3_absent (BytesReader (''RIFF'' @ ''abcd'' @ ''WAVE'' @ ''fmt ''
        @ [CHR 0x10, CHR 0x00, CHR 0x00, CHR 0x00]
        @ [CHR 0x01, CHR 0x00] @ [CHR 0x02, CHR 0x00]
        @ [CHR 0x44, CHR 0xAC, CHR 0x00, CHR 0x00] @ [CHR 0x10, CHR 0xB1, CHR 0x02, CHR 0x00]
        @ [CHR 0x04, CHR 0x00] @ [CHR 0x10, CHR 0x00])) =
     ((Some (Get \<lparr>length_wav = LittleEndian_Uint32 ''abcd'',
            metadata = [''AudioFormat'' \<mapsto> ''1'', ''NumChannels'' \<mapsto> ''2'', ''SampleRate'' \<mapsto> ''44100'',
       ''ByteRate'' \<mapsto> ''176400'', ''BlockAlign'' \<mapsto> ''4'', ''BitRate'' \<mapsto> ''16'']\<rparr>),
       None), BytesReader [])"
  using newWav_getter_minimal by (simp add: NewGetter_RIFF)


lemma readAudioFormat_pcm:
  "readAudioFormat \<lparr>length_wav = 0, metadata = Map.empty\<rparr> (BytesReader [CHR 0x01, CHR 0x00]) =
     ((None, \<lparr>length_wav = 0, metadata = [''AudioFormat'' \<mapsto> ''1'']\<rparr>), BytesReader [])"
  by (simp add: readAudioFormat_def binary_Read_int16_bytes LittleEndian_Uint16_def FormatInt_one)

lemma readAudioFormat_not_pcm:
  "readAudioFormat \<lparr>length_wav = 0, metadata = Map.empty\<rparr> (BytesReader [CHR 0x03, CHR 0x00]) =
     ((Some (ErrPcmAudioFormat 1 3), \<lparr>length_wav = 0, metadata = Map.empty\<rparr>), BytesReader [])"
  by (simp add: readAudioFormat_def binary_Read_int16_bytes le16_3)

section \<open>What the decoders store\<close>

text \<open>
  \<open>readAudioFormat\<close> is the only function that stores \<open>AudioFormat\<close>, and the
  other readers store under other keys.
\<close>

lemma readAudioFormat_AudioFormat:
  assumes "readAudioFormat w r = ((err, w'), r')"
  shows "metadata w' ''AudioFormat'' = metadata w ''AudioFormat''
       \<or> metadata w' ''AudioFormat'' = Some ''1''"
  using assms
  by (auto simp add: readAudioFormat_def FormatInt_one split: prod.splits sum.splits if_splits)

lemma readAudioFormat_stores_1:
  assumes "readAudioFormat w r = ((None, w'), r')"
  shows "metadata w' ''AudioFormat'' = Some ''1''"
  using assms
  by (auto simp add: readAudioFormat_def FormatInt_one split: prod.splits sum.splits if_splits)

lemma readAudioFormat_failure_stores_nothing:
  assumes "readAudioFormat w r = ((Some e, w'), r')"
  shows "w' = w"
  using assms
  by (auto simp add: readAudioFormat_def split: prod.splits sum.splits if_splits)

lemma readInt16_other:
  assumes "readInt16 w r prop = ((err, w'), r')" and "prop \<noteq> k"
  shows "metadata w' k = metadata w k"
  using assms by (auto simp add: readInt16_def split: prod.splits sum.splits)

lemma readInt32_other:
  assumes "readInt32 w r prop = ((err, w'), r')" and "prop \<noteq> k"
  shows "metadata w' k = metadata w k"
  using assms by (auto simp add: readInt32_def split: prod.splits sum.splits)

lemma fields_AudioFormat:
  assumes "readAudioFormat w r = ((e1, w1), r1)"
    and "readInt16 w1 r1 ''NumChannels'' = ((e2, w2), r2)"
    and "readInt32 w2 r2 ''SampleRate'' = ((e3, w3), r3)"
    and "readInt32 w3 r3 ''ByteRate'' = ((e4, w4), r4)"
    and "readInt16 w4 r4 ''BlockAlign'' = ((e5, w5), r5)"
    and "readInt16 w5 r5 ''BitRate'' = ((e6, w6), r6)"
  shows "\<forall>v \<in> {w1, w2, w3, w4, w5, w6}.
           metadata v ''AudioFormat'' = metadata w ''AudioFormat''
         \<or> metadata v ''AudioFormat'' = Some ''1''"
proof -
  have 1: "metadata w1 ''AudioFormat'' = metadata w ''AudioFormat''
         \<or> metadata w1 ''AudioFormat'' = Some ''1''"
    using assms(1) by (rule readAudioFormat_AudioFormat)
  have 2: "metadata w2 ''AudioFormat'' = metadata w1 ''AudioFormat''"
    using assms(2) by (rule readInt16_other) simp
  have 3: "metadata w3 ''AudioFormat'' = metadata w2 ''AudioFormat''"
    using assms(3) by (rule readInt32_other) simp
  have 4: "metadata w4 ''AudioFormat'' = metadata w3 ''AudioFormat''"
    using assms(4) by (rule readInt32_other) simp
  have 5: "metadata w5 ''AudioFormat'' = metadata w4 ''AudioFormat''"
    using assms(5) by (rule readInt16_other) simp
  have 6: "metadata w6 ''AudioFormat'' = metadata w5 ''AudioFormat''"
    using assms(6) by (rule readInt16_other) simp
  from 1 2 3 4 5 6 show ?thesis by auto
qed

lemma readFormat_AudioFormat:
  assumes "readFormat w r = ((err, w'), r')"
  shows "metadata w' ''AudioFormat'' = metadata w ''AudioFormat''
       \<or> metadata w' ''AudioFormat'' = Some ''1''"
proof -
  obtain e1 w1 r1 where a1: "readAudioFormat w r = ((e1, w1), r1)"
    by (metis surj_pair)
  obtain e2 w2 r2 where a2: "readInt16 w1 r1 ''NumChannels'' = ((e2, w2), r2)"
    by (metis surj_pair)
  obtain e3 w3 r3 where a3: "readInt32 w2 r2 ''SampleRate'' = ((e3, w3), r3)"
    by (metis surj_pair)
  obtain e4 w4 r4 where a4: "readInt32 w3 r3 ''ByteRate'' = ((e4, w4), r4)"
    by (metis surj_pair)
  obtain e5 w5 r5 where a5: "readInt16 w4 r4 ''BlockAlign'' = ((e5, w5), r5)"
    by (metis surj_pair)
  obtain e6 w6 r6 where a6: "readInt16 w5 r5 ''BitRate'' = ((e6, w6), r6)"
    by (metis surj_pair)
  have "w' \<in> {w1, w2, w3, w4, w5, w6}"
    using assms by (simp add: readFormat_def a1 a2 a3 a4 a5 a6 split: option.splits)
  with fields_AudioFormat [OF a1 a2 a3 a4 a5 a6] show ?thesis by blast
qed

lemma readSubchunks_AudioFormat:
  assumes "readSubchunks w r = ((err, w'), r')"
  shows "metadata w' ''AudioFormat'' = metadata w ''AudioFormat''
       \<or> metadata w' ''AudioFormat'' = Some ''1''"
  using assms
  by (auto simp add: readSubchunks_def split: prod.splits sum.splits if_splits
      dest: readFormat_AudioFormat)

lemma newWav_AudioFormat:
  assumes "newWav r = ((Some m, err), r')"
  shows "m ''AudioFormat'' = None \<or> m ''AudioFormat'' = Some ''1''"
  using assms
  by (auto simp add: newWav_def split: prod.splits sum.splits option.splits
      dest: readSubchunks_AudioFormat)

lemma readFormat_getter_AudioFormat:
  assumes "readFormat_getter w r = ((err, w'), r')"
  shows "metadata w' ''AudioFormat'' = metadata w ''AudioFormat''
       \<or> metadata w' ''AudioFormat'' = Some ''1''"
proof -
  obtain x ra where b1: "expectChunkID w r ''fmt '' = (x, ra)" by (metis surj_pair)
  obtain y rb where b2: "readFormatLength w ra = (y, rb)" by (metis surj_pair)
  obtain e1 w1 r1 where a1: "readAudioFormat w rb = ((e1, w1), r1)"
    by (metis surj_pair)
  obtain e2 w2 r2 where a2: "readInt16 w1 r1 ''NumChannels'' = ((e2, w2), r2)"
    by (metis surj_pair)
  obtain e3 w3 r3 where a3: "readInt32 w2 r2 ''SampleRate'' = ((e3, w3), r3)"
    by (metis surj_pair)
  obtain e4 w4 r4 where a4: "readInt32 w3 r3 ''ByteRate'' = ((e4, w4), r4)"
    by (metis surj_pair)
  obtain e5 w5 r5 where a5: "readInt16 w4 r4 ''BlockAlign'' = ((e5, w5), r5)"
    by (metis surj_pair)
  obtain e6 w6 r6 where a6: "readInt16 w5 r5 ''BitRate'' = ((e6, w6), r6)"
    by (metis surj_pair)
  have "w' \<in> {w, w1, w2, w3, w4, w5, w6}"
    using assms by (simp add: readFormat_getter_def b1 b2 a1 a2 a3 a4 a5 a6 split: option.splits)
  with fields_AudioFormat [OF a1 a2 a3 a4 a5 a6] show ?thesis by blast
qed

lemma newWav_getter_AudioFormat:
  assumes "newWav_getter r = ((Some g, err), r')"
  shows "g ''AudioFormat'' = ([], Some (ErrKeyDoesNotExist ''AudioFormat''))
       \<or> g ''AudioFormat'' = (''1'', None)"
  using assms
  by (auto simp add: newWav_getter_def Get_def split: prod.splits sum.splits option.splits
      dest: readFormat_getter_AudioFormat)

lemma New_not_TAG:
  assumes "fst (fst (Read r 3)) \<noteq> ''TAG''" and "New newID3 r = ((Some m, err), r')"
  shows "\<exists>r2 e. newWav r2 = ((Some m, e), r')"
  using assms
  by (auto simp add: New_def split: prod.splits option.splits if_splits)

lemma NewGetter_not_TAG:
  assumes "fst (fst (Read r 3)) \<noteq> ''TAG''" and "NewGetter newID3 r = ((Some g, err), r')"
  shows "\<exists>r2. newWav_getter r2 = ((Some g, err), r')"
  using assms
  by (auto simp add: NewGetter_def split: prod.splits option.splits if_splits)



section \<open>The claims\<close>

subsection \<open>C1: the minimal container\<close>

text \<open>
  Claim C1. The stream made of the magic \<open>RIFF\<close>, any four length bytes, the tag \<open>WAVE\<close>,
  the chunk identifier \<open>fmt\<close>, the length 16 and a payload with encoding 1, 2 channels,
  sample rate 44100, byte rate 176400, block alignment 4 and bit depth 16, and nothing
  after it, parses: \<open>New\<close> returns the map with exactly the six keys \<open>AudioFormat\<close>,
  \<open>NumChannels\<close>, \<open>SampleRate\<close>, \<open>ByteRate\<close>, \<open>BlockAlign\<close> and \<open>BitRate\<close>, each with the
  decimal string of its number, no error, and the stream is consumed to its end. The
  \<open>Getter\<close> that \<open>NewGetter\<close> returns for the same stream is over the same map.
\<close>

theorem C1_minimal_container:
  "New newID3
     (BytesReader (''RIFF'' @ [l0, l1, l2, l3] @ ''WAVE'' @ ''fmt ''
        @ [CHR 0x10, CHR 0x00, CHR 0x00, CHR 0x00]
        @ [CHR 0x01, CHR 0x00] @ [CHR 0x02, CHR 0x00]
        @ [CHR 0x44, CHR 0xAC, CHR 0x00, CHR 0x00] @ [CHR 0x10, CHR 0xB1, CHR 0x02, CHR 0x00]
        @ [CHR 0x04, CHR 0x00] @ [CHR 0x10, CHR 0x00])) =
     ((Some [''AudioFormat'' \<mapsto> ''1'', ''NumChannels'' \<mapsto> ''2'', ''SampleRate'' \<mapsto> ''44100'',
             ''ByteRate'' \<mapsto> ''176400'', ''BlockAlign'' \<mapsto> ''4'', ''BitRate'' \<mapsto> ''16''],
       None), BytesReader [])
   \<and> dom [''AudioFormat'' \<mapsto> ''1'', ''NumChannels'' \<mapsto> ''2'', ''SampleRate'' \<mapsto> ''44100'',
          ''ByteRate'' \<mapsto> ''176400'', ''BlockAlign'' \<mapsto> ''4'', ''BitRate'' \<mapsto> ''16'']
       = {''AudioFormat'', ''NumChannels'', ''SampleRate'', ''ByteRate'', ''BlockAlign'', ''BitRate''}
   \<and> NewGetter newID3'
     (BytesReader (''RIFF'' @ [l0, l1, l2, l3] @ ''WAVE'' @ ''fmt ''
        @ [CHR 0x10, CHR 0x00, CHR 0x00, CHR 0x00]
        @ [CHR 0x01, CHR 0x00] @ [CHR 0x02, CHR 0x00]
        @ [CHR 0x44, CHR 0xAC, CHR 0x00, CHR 0x00] @ [CHR 0x10, CHR 0xB1, CHR 0x02, CHR 0x00]
        @ [CHR 0x04, CHR 0x00] @ [CHR 0x10, CHR 0x00])) =
     ((Some (Get \<lparr>length_wav = LittleEndian_Uint32 [l0, l1, l2, l3],
                 metadata = [''AudioFormat'' \<mapsto> ''1'', ''NumChannels'' \<mapsto> ''2'',
                   ''SampleRate'' \<mapsto> ''44100'', ''ByteRate'' \<mapsto> ''176400'',
                   ''BlockAlign'' \<mapsto> ''4'', ''BitRate'' \<mapsto> ''16'']\<rparr>),
       None), BytesReader [])"
proof (intro conjI)
  show "New newID3
     (BytesReader (''RIFF'' @ [l0, l1, l2, l3] @ ''WAVE'' @ ''fmt ''
        @ [CHR 0x10, CHR 0x00, CHR 0x00, CHR 0x00]
        @ [CHR 0x01, CHR 0x00] @ [CHR 0x02, CHR 0x00]
        @ [CHR 0x44, CHR 0xAC, CHR 0x00, CHR 0x00] @ [CHR 0x10, CHR 0xB1, CHR 0x02, CHR 0x00]
        @ [CHR 0x04, CHR 0x00] @ [CHR 0x10, CHR 0x00])) =
     ((Some [''AudioFormat'' \<mapsto> ''1'', ''NumChannels'' \<mapsto> ''2'', ''SampleRate'' \<mapsto> ''44100'',
             ''ByteRate'' \<mapsto> ''176400'', ''BlockAlign'' \<mapsto> ''4'', ''BitRate'' \<mapsto> ''16''],
       None), BytesReader [])"
    by (simp add: New_RIFF newWav_WAVE readSubchunks_fmt sint_16 readFormat_six fields_44100)
next
  show "dom [''AudioFormat'' \<mapsto> ''1'', ''NumChannels'' \<mapsto> ''2'', ''SampleRate'' \<mapsto> ''44100'',
          ''ByteRate'' \<mapsto> ''176400'', ''BlockAlign'' \<mapsto> ''4'', ''BitRate'' \<mapsto> ''16'']
       = {''AudioFormat'', ''NumChannels'', ''SampleRate'', ''ByteRate'', ''BlockAlign'', ''BitRate''}"
    by auto
next
  show "NewGetter newID3'
     (BytesReader (''RIFF'' @ [l0, l1, l2, l3] @ ''WAVE'' @ ''fmt ''
        @ [CHR 0x10, CHR 0x00, CHR 0x00, CHR 0x00]
        @ [CHR 0x01, CHR 0x00] @ [CHR 0x02, CHR 0x00]
        @ [CHR 0x44, CHR 0xAC, CHR 0x00, CHR 0x00] @ [CHR 0x10, CHR 0xB1, CHR 0x02, CHR 0x00]
        @ [CHR 0x04, CHR 0x00] @ [CHR 0x10, CHR 0x00])) =
     ((Some (Get \<lparr>length_wav = LittleEndian_Uint32 [l0, l1, l2, l3],
                 metadata = [''AudioFormat'' \<mapsto> ''1'', ''NumChannels'' \<mapsto> ''2'',
                   ''SampleRate'' \<mapsto> ''44100'', ''ByteRate'' \<mapsto> ''176400'',
                   ''BlockAlign'' \<mapsto> ''4'', ''BitRate'' \<mapsto> ''16'']\<rparr>),
       None), BytesReader [])"
    by (simp add: NewGetter_RIFF newWav_getter_WAVE readFormat_getter_six fields_44100)
qed

subsection \<open>C2: the chunk loop\<close>

text \<open>
  Claim C2 says that the walker reads chunk headers until the stream is exhausted, so that
  every chunk of a container with two or more chunks is processed. \<open>readSubchunks\<close> reads
  one chunk header, dispatches that chunk and returns, and \<open>newWav\<close> calls it once. For
  the canonical file, a \<open>fmt\<close> chunk followed by a \<open>data\<close> chunk, \<open>New\<close> returns the six
  fields of the first chunk and leaves the whole second chunk, header and payload, unread.
\<close>

theorem C2_second_chunk_unread:
  "New newID3_absent
     (BytesReader (''RIFF'' @ [CHR 0x28, CHR 0x00, CHR 0x00, CHR 0x00] @ ''WAVE''
        @ ''fmt '' @ [CHR 0x10, CHR 0x00, CHR 0x00, CHR 0x00]
        @ [CHR 0x01, CHR 0x00] @ [CHR 0x02, CHR 0x00]
        @ [CHR 0x44, CHR 0xAC, CHR 0x00, CHR 0x00] @ [CHR 0x10, CHR 0xB1, CHR 0x02, CHR 0x00]
        @ [CHR 0x04, CHR 0x00] @ [CHR 0x10, CHR 0x00]
        @ ''data'' @ [CHR 0x04, CHR 0x00, CHR 0x00, CHR 0x00] @ ''abcd'')) =
     ((Some [''AudioFormat'' \<mapsto> ''1'', ''NumChannels'' \<mapsto> ''2'', ''SampleRate'' \<mapsto> ''44100'',
             ''ByteRate'' \<mapsto> ''176400'', ''BlockAlign'' \<mapsto> ''4'', ''BitRate'' \<mapsto> ''16''],
       None),
      BytesReader (''data'' @ [CHR 0x04, CHR 0x00, CHR 0x00, CHR 0x00] @ ''abcd''))"
  by (simp add: New_RIFF newWav_WAVE readSubchunks_fmt sint_16 readFormat_six fields_44100)

subsection \<open>C3: errors and the map\<close>




subsection \<open>C4: the chunk after the audio data\<close>

text \<open>
  Claim C4 says that after a \<open>data\<close> chunk of declared length L the parser has advanced
  exactly L payload bytes and goes on to process the following chunk. The \<open>data\<close> case of
  \<open>readSubchunks\<close> discards exactly L bytes (\<open>CopyN_Discard_exact\<close>) and then returns.
  For a \<open>data\<close> chunk of 4 bytes followed by a \<open>fmt\<close> chunk, \<open>New\<close> returns an empty
  map, and the reader stands at the first byte of the \<open>fmt\<close> chunk, which is never read.
\<close>

theorem C4_chunk_after_data_unread:
  "New newID3_absent
     (BytesReader (''RIFF'' @ [CHR 0x28, CHR 0x00, CHR 0x00, CHR 0x00] @ ''WAVE''
        @ ''data'' @ [CHR 0x04, CHR 0x00, CHR 0x00, CHR 0x00] @ ''abcd''
        @ ''fmt '' @ [CHR 0x10, CHR 0x00, CHR 0x00, CHR 0x00]
        @ [CHR 0x01, CHR 0x00] @ [CHR 0x02, CHR 0x00]
        @ [CHR 0x44, CHR 0xAC, CHR 0x00, CHR 0x00] @ [CHR 0x10, CHR 0xB1, CHR 0x02, CHR 0x00]
        @ [CHR 0x04, CHR 0x00] @ [CHR 0x10, CHR 0x00])) =
     ((Some Map.empty, None),
      BytesReader (''fmt '' @ [CHR 0x10, CHR 0x00, CHR 0x00, CHR 0x00]
        @ [CHR 0x01, CHR 0x00] @ [CHR 0x02, CHR 0x00]
        @ [CHR 0x44, CHR 0xAC, CHR 0x00, CHR 0x00] @ [CHR 0x10, CHR 0xB1, CHR 0x02, CHR 0x00]
        @ [CHR 0x04, CHR 0x00] @ [CHR 0x10, CHR 0x00]))"
  using CopyN_Discard_exact [of "''abcd''" "''fmt '' @ [CHR 0x10, CHR 0x00, CHR 0x00, CHR 0x00]
        @ [CHR 0x01, CHR 0x00] @ [CHR 0x02, CHR 0x00]
        @ [CHR 0x44, CHR 0xAC, CHR 0x00, CHR 0x00] @ [CHR 0x10, CHR 0xB1, CHR 0x02, CHR 0x00]
        @ [CHR 0x04, CHR 0x00] @ [CHR 0x10, CHR 0x00]"]
  by (simp add: New_RIFF newWav_WAVE readSubchunks_data sint_4)

subsection \<open>C5: the declared length of the fmt chunk\<close>

text \<open>
  Claim C5 says that a format chunk whose declared length is not 16 fails and adds no
  fields. The chunk walker makes no such check: the declared length only limits the reader
  that \<open>readFormat\<close> gets. A \<open>fmt\<close> chunk of declared length 18, the sixteen bytes of the
  fields and two more, is decoded, and \<open>New\<close> returns its six fields.
\<close>

theorem C5_length_18_accepted:
  "New newID3_absent
     (BytesReader (''RIFF'' @ [CHR 0x1E, CHR 0x00, CHR 0x00, CHR 0x00] @ ''WAVE''
        @ ''fmt '' @ [CHR 0x12, CHR 0x00, CHR 0x00, CHR 0x00]
        @ [CHR 0x01, CHR 0x00] @ [CHR 0x02, CHR 0x00]
        @ [CHR 0x44, CHR 0xAC, CHR 0x00, CHR 0x00] @ [CHR 0x10, CHR 0xB1, CHR 0x02, CHR 0x00]
        @ [CHR 0x04, CHR 0x00] @ [CHR 0x10, CHR 0x00] @ [CHR 0x00, CHR 0x00])) =
     ((Some [''AudioFormat'' \<mapsto> ''1'', ''NumChannels'' \<mapsto> ''2'', ''SampleRate'' \<mapsto> ''44100'',
             ''ByteRate'' \<mapsto> ''176400'', ''BlockAlign'' \<mapsto> ''4'', ''BitRate'' \<mapsto> ''16''],
       None),
      BytesReader [CHR 0x00, CHR 0x00])"
  by (simp add: New_RIFF newWav_WAVE readSubchunks_fmt sint_18 readFormat_six fields_44100)

text \<open>
  Claim C5, amended. In the draft with the fixed layout, where \<open>readFormat\<close> reads the
  chunk identifier and \<open>readFormatLength\<close> the length, a declared length other than 16
  fails with "expected fmt chunk length 16, got n" and no field is stored: the \<open>wav\<close> is
  returned as it was, and \<open>NewGetter\<close> returns that error and no \<open>Getter\<close>.
\<close>

theorem C5_fixed_layout_length:
  assumes "LittleEndian_Uint32 [k0, k1, k2, k3] \<noteq> 16"
  shows "readFormat_getter w (BytesReader (''fmt '' @ [k0, k1, k2, k3] @ rest)) =
           ((Some (ErrFmtChunkLength 16 (LittleEndian_Uint32 [k0, k1, k2, k3])), w),
            BytesReader rest)
       \<and> NewGetter newID3 (BytesReader (''RIFF'' @ [l0, l1, l2, l3] @ ''WAVE'' @ ''fmt ''
              @ [k0, k1, k2, k3] @ rest)) =
           ((None, Some (ErrFmtChunkLength 16 (LittleEndian_Uint32 [k0, k1, k2, k3]))),
            BytesReader rest)"
proof -
  have ne: "16 \<noteq> LittleEndian_Uint32 [k0, k1, k2, k3]" using assms by simp
  have g: "readFormat_getter v (BytesReader (''fmt '' @ [k0, k1, k2, k3] @ rest)) =
           ((Some (ErrFmtChunkLength 16 (LittleEndian_Uint32 [k0, k1, k2, k3])), v),
            BytesReader rest)" for v
    using ne
    by (simp add: readFormat_getter_def expectChunkID_def readChunkID_bytes readFormatLength_def
        binary_Read_int32_bytes)
  then show ?thesis by (simp add: NewGetter_RIFF newWav_getter_WAVE)
qed

text \<open>
  A declared length of 18.
\<close>

theorem C5_fixed_layout_length_witness:
  "readFormat_getter \<lparr>length_wav = 0, metadata = Map.empty\<rparr>
       (BytesReader (''fmt '' @ [CHR 0x12, CHR 0x00, CHR 0x00, CHR 0x00] @ ''rest'')) =
     ((Some (ErrFmtChunkLength 16 18), \<lparr>length_wav = 0, metadata = Map.empty\<rparr>),
      BytesReader ''rest'')
   \<and> NewGetter newID3_absent (BytesReader (''RIFF'' @ ''abcd'' @ ''WAVE'' @ ''fmt ''
          @ [CHR 0x12, CHR 0x00, CHR 0x00, CHR 0x00] @ ''rest'')) =
     ((None, Some (ErrFmtChunkLength 16 18)), BytesReader ''rest'')"
  using C5_fixed_layout_length [of "CHR 0x12" "CHR 0x00" "CHR 0x00" "CHR 0x00"
      "\<lparr>length_wav = 0, metadata = Map.empty\<rparr>" "''rest''" newID3_absent
      "CHR ''a''" "CHR ''b''" "CHR ''c''" "CHR ''d''"]
  by (simp add: le32_18)

subsection \<open>C6: the encoding tag\<close>

text \<open>
  Claim C6. A format chunk whose encoding tag, the first two bytes of the payload read
  little-endian, is not 1 fails with "expected pcm audio format 1, got n", and
  \<open>AudioFormat\<close> is not stored: the \<open>wav\<close> is returned as it was. This holds for the
  \<open>readFormat\<close> of the chunk walker, given a declared length of at least 2 so that the tag
  can be read, for \<open>New\<close> on a whole stream, and for \<open>readFormat\<close> and \<open>NewGetter\<close> of the
  draft with the fixed layout.
\<close>

theorem C6_unsupported_encoding:
  assumes "LittleEndian_Uint16 [b0, b1] \<noteq> 1"
  shows "(2 \<le> lim \<longrightarrow>
            readFormat w (LimitedReader (BytesReader (b0 # b1 # rest)) lim) =
              ((Some (ErrPcmAudioFormat 1 (LittleEndian_Uint16 [b0, b1])), w),
               LimitedReader (BytesReader rest) (lim - 2)))
       \<and> (2 \<le> sint (LittleEndian_Uint32 [k0, k1, k2, k3]) \<longrightarrow>
            New newID3 (BytesReader (''RIFF'' @ [l0, l1, l2, l3] @ ''WAVE'' @ ''fmt ''
                @ [k0, k1, k2, k3] @ b0 # b1 # rest)) =
              ((None, Some (ErrPcmAudioFormat 1 (LittleEndian_Uint16 [b0, b1]))), BytesReader rest))
       \<and> readFormat_getter w (BytesReader (''fmt '' @ [CHR 0x10, CHR 0x00, CHR 0x00, CHR 0x00]
                @ b0 # b1 # rest)) =
              ((Some (ErrPcmAudioFormat 1 (LittleEndian_Uint16 [b0, b1])), w), BytesReader rest)
       \<and> NewGetter newID3' (BytesReader (''RIFF'' @ [l0, l1, l2, l3] @ ''WAVE'' @ ''fmt ''
                @ [CHR 0x10, CHR 0x00, CHR 0x00, CHR 0x00] @ b0 # b1 # rest)) =
              ((None, Some (ErrPcmAudioFormat 1 (LittleEndian_Uint16 [b0, b1]))), BytesReader rest)"
proof -
  have ne: "1 \<noteq> LittleEndian_Uint16 [b0, b1]" using assms by simp
  have len: "LittleEndian_Uint32 [CHR 0x10, CHR 0x00, CHR 0x00, CHR 0x00] = 16"
    by (simp add: LittleEndian_Uint32_def)
  have f: "2 \<le> n \<Longrightarrow>
        readFormat v (LimitedReader (BytesReader (b0 # b1 # rest)) n) =
          ((Some (ErrPcmAudioFormat 1 (LittleEndian_Uint16 [b0, b1])), v),
           LimitedReader (BytesReader rest) (n - 2))" for n v
    using ne by (simp add: readFormat_def readAudioFormat_def binary_Read_int16_limited)
  have g: "readFormat_getter v (BytesReader (''fmt '' @ [CHR 0x10, CHR 0x00, CHR 0x00, CHR 0x00]
                @ b0 # b1 # rest)) =
          ((Some (ErrPcmAudioFormat 1 (LittleEndian_Uint16 [b0, b1])), v), BytesReader rest)" for v
    using ne
    by (simp add: readFormat_getter_def expectChunkID_def readChunkID_bytes readFormatLength_def
        binary_Read_int32_bytes len readAudioFormat_def binary_Read_int16_bytes)
  show ?thesis
  proof (intro conjI impI)
    assume "2 \<le> lim"
    then show "readFormat w (LimitedReader (BytesReader (b0 # b1 # rest)) lim) =
              ((Some (ErrPcmAudioFormat 1 (LittleEndian_Uint16 [b0, b1])), w),
               LimitedReader (BytesReader rest) (lim - 2))" by (rule f)
  next
    assume "2 \<le> sint (LittleEndian_Uint32 [k0, k1, k2, k3])"
    then show "New newID3 (BytesReader (''RIFF'' @ [l0, l1, l2, l3] @ ''WAVE'' @ ''fmt ''
                @ [k0, k1, k2, k3] @ b0 # b1 # rest)) =
              ((None, Some (ErrPcmAudioFormat 1 (LittleEndian_Uint16 [b0, b1]))), BytesReader rest)"
      by (simp add: New_RIFF newWav_WAVE readSubchunks_fmt f)
  next
    show "readFormat_getter w (BytesReader (''fmt '' @ [CHR 0x10, CHR 0x00, CHR 0x00, CHR 0x00]
                @ b0 # b1 # rest)) =
              ((Some (ErrPcmAudioFormat 1 (LittleEndian_Uint16 [b0, b1])), w), BytesReader rest)"
      by (rule g)
  next
    show "NewGetter newID3' (BytesReader (''RIFF'' @ [l0, l1, l2, l3] @ ''WAVE'' @ ''fmt ''
                @ [CHR 0x10, CHR 0x00, CHR 0x00, CHR 0x00] @ b0 # b1 # rest)) =
              ((None, Some (ErrPcmAudioFormat 1 (LittleEndian_Uint16 [b0, b1]))), BytesReader rest)"
      using g by (simp add: NewGetter_RIFF newWav_getter_WAVE)
  qed
qed

text \<open>
  The encoding tag 3.
\<close>

theorem C6_unsupported_encoding_witness:
  "readFormat \<lparr>length_wav = 0, metadata = Map.empty\<rparr>
       (LimitedReader (BytesReader (CHR 0x03 # CHR 0x00 # ''rest'')) 16) =
     ((Some (ErrPcmAudioFormat 1 3), \<lparr>length_wav = 0, metadata = Map.empty\<rparr>),
      LimitedReader (BytesReader ''rest'') 14)
   \<and> New newID3_absent (BytesReader (''RIFF'' @ ''abcd'' @ ''WAVE'' @ ''fmt ''
          @ [CHR 0x10, CHR 0x00, CHR 0x00, CHR 0x00] @ CHR 0x03 # CHR 0x00 # ''rest'')) =
     ((None, Some (ErrPcmAudioFormat 1 3)), BytesReader ''rest'')
   \<and> readFormat_getter \<lparr>length_wav = 0, metadata = Map.empty\<rparr>
       (BytesReader (''fmt '' @ [CHR 0x10, CHR 0x00, CHR 0x00, CHR 0x00]
          @ CHR 0x03 # CHR 0x00 # ''rest'')) =
     ((Some (ErrPcmAudioFormat 1 3), \<lparr>length_wav = 0, metadata = Map.empty\<rparr>),
      BytesReader ''rest'')
   \<and> NewGetter newID3_absent (BytesReader (''RIFF'' @ ''abcd'' @ ''WAVE'' @ ''fmt ''
          @ [CHR 0x10, CHR 0x00, CHR 0x00, CHR 0x00] @ CHR 0x03 # CHR 0x00 # ''rest'')) =
     ((None, Some (ErrPcmAudioFormat 1 3)), BytesReader ''rest'')"
  using C6_unsupported_encoding [of "CHR 0x03" "CHR 0x00" 16
      "\<lparr>length_wav = 0, metadata = Map.empty\<rparr>" "''rest''"
      "CHR 0x10" "CHR 0x00" "CHR 0x00" "CHR 0x00" newID3_absent
      "CHR ''a''" "CHR ''b''" "CHR ''c''" "CHR ''d''" newID3_absent]
  by (simp add: le16_3 sint_16)

subsection \<open>C7: headers that are not recognized\<close>

text \<open>
  Claim C7. A stream whose first three bytes are neither \<open>TAG\<close> nor \<open>RIF\<close> fails with
  "unrecognized header" and the three bytes read; a stream that starts with \<open>RIF\<close> and goes
  on with a byte other than \<open>F\<close> fails with "expected RIFF, got" and the four bytes read.
  Three bytes are consumed in the first case and four in the second, by \<open>New\<close> and by
  \<open>NewGetter\<close> alike.
\<close>

theorem C7_unrecognized_header:
  "(3 \<le> length s \<and> take 3 s \<noteq> ''TAG'' \<and> take 3 s \<noteq> ''RIF'' \<longrightarrow>
      New newID3 (BytesReader s) =
        ((None, Some (ErrUnrecognizedHeader (take 3 s))), BytesReader (drop 3 s))
      \<and> NewGetter newID3' (BytesReader s) =
        ((None, Some (ErrUnrecognizedHeader (take 3 s))), BytesReader (drop 3 s)))
   \<and> (c \<noteq> CHR ''F'' \<longrightarrow>
      New newID3 (BytesReader (''RIF'' @ c # rest)) =
        ((None, Some (ErrExpectedRIFF (''RIF'' @ [c]))), BytesReader rest)
      \<and> NewGetter newID3' (BytesReader (''RIF'' @ c # rest)) =
        ((None, Some (ErrExpectedRIFF (''RIF'' @ [c]))), BytesReader rest))"
proof (intro conjI impI)
  assume a: "3 \<le> length s \<and> take 3 s \<noteq> ''TAG'' \<and> take 3 s \<noteq> ''RIF''"
  then have s: "s \<noteq> []" by auto
  from a s show "New newID3 (BytesReader s) =
        ((None, Some (ErrUnrecognizedHeader (take 3 s))), BytesReader (drop 3 s))"
    by (simp add: New_def)
  from a s show "NewGetter newID3' (BytesReader s) =
        ((None, Some (ErrUnrecognizedHeader (take 3 s))), BytesReader (drop 3 s))"
    by (simp add: NewGetter_def)
next
  assume "c \<noteq> CHR ''F''"
  then show "New newID3 (BytesReader (''RIF'' @ c # rest)) =
        ((None, Some (ErrExpectedRIFF (''RIF'' @ [c]))), BytesReader rest)"
    by (simp add: New_def checkRIFFLastByte_def)
next
  assume "c \<noteq> CHR ''F''"
  then show "NewGetter newID3' (BytesReader (''RIF'' @ c # rest)) =
        ((None, Some (ErrExpectedRIFF (''RIF'' @ [c]))), BytesReader rest)"
    by (simp add: NewGetter_def)
qed

text \<open>
  The headers \<open>OggS\<close> and \<open>RIFX\<close>.
\<close>

theorem C7_unrecognized_header_witness:
  "New newID3_absent (BytesReader ''OggS-and-more'') =
     ((None :: (string \<rightharpoonup> string) option, Some (ErrUnrecognizedHeader ''Ogg'')), BytesReader ''S-and-more'')
   \<and> NewGetter newID3_absent (BytesReader ''OggS-and-more'') =
     ((None, Some (ErrUnrecognizedHeader ''Ogg'')), BytesReader ''S-and-more'')
   \<and> New newID3_absent (BytesReader ''RIFXabcd'') =
     ((None :: (string \<rightharpoonup> string) option, Some (ErrExpectedRIFF ''RIFX'')), BytesReader ''abcd'')
   \<and> NewGetter newID3_absent (BytesReader ''RIFXabcd'') =
     ((None, Some (ErrExpectedRIFF ''RIFX'')), BytesReader ''abcd'')"
  using C7_unrecognized_header [of "''OggS-and-more''" newID3_absent newID3_absent "CHR ''X''" "''abcd''"]
  by simp

subsection \<open>C8: the container format tag\<close>

text \<open>
  Claim C8. When the four bytes after the length of the outer chunk are not \<open>WAVE\<close>,
  \<open>newWav\<close> fails with "expected chunk ID WAVE, got" and those four bytes, and returns no
  map; so does \<open>New\<close> on the whole stream, and so do \<open>newWav\<close> and \<open>NewGetter\<close> of the
  draft with the fixed layout, which return no \<open>Getter\<close>.
\<close>

theorem C8_unexpected_format:
  assumes "length tag = 4" and "tag \<noteq> ''WAVE''"
  shows "newWav (BytesReader ([l0, l1, l2, l3] @ tag @ rest)) =
           ((None, Some (ErrExpectedChunkID ''WAVE'' tag)), BytesReader rest)
       \<and> New newID3 (BytesReader (''RIFF'' @ [l0, l1, l2, l3] @ tag @ rest)) =
           ((None, Some (ErrExpectedChunkID ''WAVE'' tag)), BytesReader rest)
       \<and> newWav_getter (BytesReader ([l0, l1, l2, l3] @ tag @ rest)) =
           ((None, Some (ErrExpectedChunkID ''WAVE'' tag)), BytesReader rest)
       \<and> NewGetter newID3' (BytesReader (''RIFF'' @ [l0, l1, l2, l3] @ tag @ rest)) =
           ((None, Some (ErrExpectedChunkID ''WAVE'' tag)), BytesReader rest)"
proof -
  from assms(1) obtain a b c d where tag: "tag = [a, b, c, d]"
    by (cases tag; simp; rename_tac t1; case_tac t1; simp; rename_tac t2; case_tac t2; simp;
        rename_tac t3; case_tac t3; simp)
  have w: "newWav (BytesReader ([l0, l1, l2, l3] @ tag @ rest)) =
           ((None, Some (ErrExpectedChunkID ''WAVE'' tag)), BytesReader rest)"
    using assms(2) unfolding tag
    by (auto simp add: newWav_def binary_Read_int32_bytes expectFourCC_def readFourCC_bytes)
  have g: "newWav_getter (BytesReader ([l0, l1, l2, l3] @ tag @ rest)) =
           ((None, Some (ErrExpectedChunkID ''WAVE'' tag)), BytesReader rest)"
    using assms(2) unfolding tag
    by (auto simp add: newWav_getter_def binary_Read_int32_bytes expectChunkID_def readChunkID_bytes)
  from w g show ?thesis by (simp add: New_RIFF NewGetter_RIFF)
qed

text \<open>
  The format tag \<open>AVI\<close>.
\<close>

theorem C8_unexpected_format_witness:
  "newWav (BytesReader (''abcd'' @ ''AVI '' @ ''LIST'')) =
           ((None, Some (ErrExpectedChunkID ''WAVE'' ''AVI '')), BytesReader ''LIST'')
       \<and> New newID3_absent (BytesReader (''RIFF'' @ ''abcd'' @ ''AVI '' @ ''LIST'')) =
           ((None, Some (ErrExpectedChunkID ''WAVE'' ''AVI '')), BytesReader ''LIST'')
       \<and> newWav_getter (BytesReader (''abcd'' @ ''AVI '' @ ''LIST'')) =
           ((None, Some (ErrExpectedChunkID ''WAVE'' ''AVI '')), BytesReader ''LIST'')
       \<and> NewGetter newID3_absent (BytesReader (''RIFF'' @ ''abcd'' @ ''AVI '' @ ''LIST'')) =
           ((None, Some (ErrExpectedChunkID ''WAVE'' ''AVI '')), BytesReader ''LIST'')"
  using C8_unexpected_format [of "''AVI ''" "CHR ''a''" "CHR ''b''" "CHR ''c''" "CHR ''d''" "''LIST''"
      newID3_absent newID3_absent]
  by simp

subsection \<open>C9: a stream that ends inside a chunk header\<close>

text \<open>
  Claim C9 says that a stream that ends inside a chunk header fails with an error and is
  not taken for a clean end of the stream. When the stream ends after the four bytes of the
  chunk identifier, \<open>binary.Read\<close> finds no byte of the length and returns \<open>io.EOF\<close>,
  which \<open>New\<close> does not report: it returns a nil map and a nil error. A stream that ends
  inside the identifier, or inside the length, does fail: with the count of the bytes
  read, or with \<open>io.ErrUnexpectedEOF\<close>.
\<close>

theorem C9_header_cut_after_id:
  "New newID3_absent
     (BytesReader (''RIFF'' @ [CHR 0x08, CHR 0x00, CHR 0x00, CHR 0x00] @ ''WAVE'' @ ''fmt '')) =
     ((None, None), BytesReader [])
   \<and> New newID3_absent
     (BytesReader (''RIFF'' @ [CHR 0x08, CHR 0x00, CHR 0x00, CHR 0x00] @ ''WAVE'' @ ''fmt'')) =
     ((None, Some (ErrShortCount 4 3)), BytesReader [])
   \<and> New newID3_absent
     (BytesReader (''RIFF'' @ [CHR 0x08, CHR 0x00, CHR 0x00, CHR 0x00] @ ''WAVE'' @ ''fmt ''
        @ [CHR 0x10, CHR 0x00])) =
     ((None, Some ErrUnexpectedEOF), BytesReader [])"
  by (simp add: New_RIFF newWav_WAVE readSubchunks_def readChunk_def readFourCC_def
      binary_Read_int32_def ReadFull_BytesReader)

subsection \<open>C10: the value of AudioFormat\<close>

text \<open>
  Claim C10. \<open>readAudioFormat\<close>, the same function in every draft, stores
  \<open>AudioFormat\<close> only when the encoding tag is 1, and then stores the string \<open>1\<close>; when
  it fails it stores nothing. So in every map that \<open>newWav\<close> or \<open>New\<close> returns,
  \<open>AudioFormat\<close> is absent or is \<open>1\<close>, and the \<open>Getter\<close> that \<open>newWav\<close> or \<open>NewGetter\<close> of
  the draft with the fixed layout returns answers \<open>AudioFormat\<close> with "key does not exist"
  or with \<open>1\<close>; for \<open>New\<close> and \<open>NewGetter\<close>, on a stream they do not hand to the reader of
  ID3 tags.
\<close>

theorem C10_AudioFormat_is_1:
  "(readAudioFormat w a = ((None, w1), a1) \<longrightarrow> metadata w1 ''AudioFormat'' = Some ''1'')
   \<and> (readAudioFormat v b = ((Some e, v1), b1) \<longrightarrow> v1 = v)
   \<and> (newWav r = ((Some m, err), r') \<longrightarrow>
      m ''AudioFormat'' = None \<or> m ''AudioFormat'' = Some ''1'')
   \<and> (fst (fst (Read s 3)) \<noteq> ''TAG'' \<and> New newID3 s = ((Some n, err2), s') \<longrightarrow>
      n ''AudioFormat'' = None \<or> n ''AudioFormat'' = Some ''1'')
   \<and> (newWav_getter r = ((Some g, err3), r3) \<longrightarrow>
      g ''AudioFormat'' = ([], Some (ErrKeyDoesNotExist ''AudioFormat''))
      \<or> g ''AudioFormat'' = (''1'', None))
   \<and> (fst (fst (Read s 3)) \<noteq> ''TAG'' \<and> NewGetter newID3' s = ((Some h, err4), s4) \<longrightarrow>
      h ''AudioFormat'' = ([], Some (ErrKeyDoesNotExist ''AudioFormat''))
      \<or> h ''AudioFormat'' = (''1'', None))"
proof (intro conjI impI)
  assume "readAudioFormat w a = ((None, w1), a1)"
  then show "metadata w1 ''AudioFormat'' = Some ''1''"
    by (rule readAudioFormat_stores_1)
next
  assume "readAudioFormat v b = ((Some e, v1), b1)"
  then show "v1 = v"
    by (rule readAudioFormat_failure_stores_nothing)
next
  assume "newWav r = ((Some m, err), r')"
  then show "m ''AudioFormat'' = None \<or> m ''AudioFormat'' = Some ''1''"
    by (rule newWav_AudioFormat)
next
  assume "fst (fst (Read s 3)) \<noteq> ''TAG'' \<and> New newID3 s = ((Some n, err2), s')"
  then obtain r2 e where "newWav r2 = ((Some n, e), s')"
    using New_not_TAG by blast
  then show "n ''AudioFormat'' = None \<or> n ''AudioFormat'' = Some ''1''"
    by (rule newWav_AudioFormat)
next
  assume "newWav_getter r = ((Some g, err3), r3)"
  then show "g ''AudioFormat'' = ([], Some (ErrKeyDoesNotExist ''AudioFormat''))
      \<or> g ''AudioFormat'' = (''1'', None)"
    by (rule newWav_getter_AudioFormat)
next
  assume "fst (fst (Read s 3)) \<noteq> ''TAG'' \<and> NewGetter newID3' s = ((Some h, err4), s4)"
  then obtain r2 where "newWav_getter r2 = ((Some h, err4), s4)"
    using NewGetter_not_TAG by blast
  then show "h ''AudioFormat'' = ([], Some (ErrKeyDoesNotExist ''AudioFormat''))
      \<or> h ''AudioFormat'' = (''1'', None)"
    by (rule newWav_getter_AudioFormat)
qed

text \<open>
  The encoding tags 1 and 3, and the minimal container.
\<close>

theorem C10_AudioFormat_is_1_witness:
  "readAudioFormat \<lparr>length_wav = 0, metadata = Map.empty\<rparr> (BytesReader [CHR 0x01, CHR 0x00]) =
     ((None, \<lparr>length_wav = 0, metadata = [''AudioFormat'' \<mapsto> ''1'']\<rparr>), BytesReader [])
   \<and> readAudioFormat \<lparr>length_wav = 0, metadata = Map.empty\<rparr> (BytesReader [CHR 0x03, CHR 0x00]) =
     ((Some (ErrPcmAudioFormat 1 3), \<lparr>length_wav = 0, metadata = Map.empty\<rparr>), BytesReader [])
   \<and> New newID3_absent (BytesReader (''RIFF'' @ ''abcd'' @ ''WAVE'' @ ''fmt ''
        @ [CHR 0x10, CHR 0x00, CHR 0x00, CHR 0x00]
        @ [CHR 0x01, CHR 0x00] @ [CHR 0x02, CHR 0x00]
        @ [CHR 0x44, CHR 0xAC, CHR 0x00, CHR 0x00] @ [CHR 0x10, CHR 0xB1, CHR 0x02, CHR 0x00]
        @ [CHR 0x04, CHR 0x00] @ [CHR 0x10, CHR 0x00])) =
     ((Some [''AudioFormat'' \<mapsto> ''1'', ''NumChannels'' \<mapsto> ''2'', ''SampleRate'' \<mapsto> ''44100'',
       ''ByteRate'' \<mapsto> ''176400'', ''BlockAlign'' \<mapsto> ''4'', ''BitRate'' \<mapsto> ''16''],
       None), BytesReader [])
   \<and> [''AudioFormat'' \<mapsto> ''1'', ''NumChannels'' \<mapsto> ''2'', ''SampleRate'' \<mapsto> ''44100'',
       ''ByteRate'' \<mapsto> ''176400'', ''BlockAlign'' \<mapsto> ''4'', ''BitRate'' \<mapsto> ''16'']
        ''AudioFormat'' = Some ''1''
   \<and> NewGetter newID3_absent (BytesReader (''RIFF'' @ ''abcd'' @ ''WAVE'' @ ''fmt ''
        @ [CHR 0x10, CHR 0x00, CHR 0x00, CHR 0x00]
        @ [CHR 0x01, CHR 0x00] @ [CHR 0x02, CHR 0x00]
        @ [CHR 0x44, CHR 0xAC, CHR 0x00, CHR 0x00] @ [CHR 0x10, CHR 0xB1, CHR 0x02, CHR 0x00]
        @ [CHR 0x04, CHR 0x00] @ [CHR 0x10, CHR 0x00])) =
     ((Some (Get \<lparr>length_wav = LittleEndian_Uint32 ''abcd'',
            metadata = [''AudioFormat'' \<mapsto> ''1'', ''NumChannels'' \<mapsto> ''2'', ''SampleRate'' \<mapsto> ''44100'',
       ''ByteRate'' \<mapsto> ''176400'', ''BlockAlign'' \<mapsto> ''4'', ''BitRate'' \<mapsto> ''16'']\<rparr>),
       None), BytesReader [])
   \<and> Get \<lparr>length_wav = LittleEndian_Uint32 ''abcd'',
            metadata = [''AudioFormat'' \<mapsto> ''1'', ''NumChannels'' \<mapsto> ''2'', ''SampleRate'' \<mapsto> ''44100'',
       ''ByteRate'' \<mapsto> ''176400'', ''BlockAlign'' \<mapsto> ''4'', ''BitRate'' \<mapsto> ''16'']\<rparr> ''AudioFormat'' = (''1'', None)"
  using readAudioFormat_pcm readAudioFormat_not_pcm newWav_minimal newWav_getter_minimal
    New_minimal NewGetter_minimal
    C10_AudioFormat_is_1 [where w = "\<lparr>length_wav = 0, metadata = Map.empty\<rparr>"
      and a = "BytesReader [CHR 0x01, CHR 0x00]"
      and ?w1.0 = "\<lparr>length_wav = 0, metadata = [''AudioFormat'' \<mapsto> ''1'']\<rparr>"
      and ?a1.0 = "BytesReader []"
      and v = "\<lparr>length_wav = 0, metadata = Map.empty\<rparr>"
      and b = "BytesReader [CHR 0x03, CHR 0x00]" and e = "ErrPcmAudioFormat 1 3"
      and ?v1.0 = "\<lparr>length_wav = 0, metadata = Map.empty\<rparr>" and ?b1.0 = "BytesReader []"
      and r = "BytesReader (''abcd'' @ ''WAVE'' @ ''fmt ''
        @ [CHR 0x10, CHR 0x00, CHR 0x00, CHR 0x00]
        @ [CHR 0x01, CHR 0x00] @ [CHR 0x02, CHR 0x00]
        @ [CHR 0x44, CHR 0xAC, CHR 0x00, CHR 0x00] @ [CHR 0x10, CHR 0xB1, CHR 0x02, CHR 0x00]
        @ [CHR 0x04, CHR 0x00] @ [CHR 0x10, CHR 0x00])"
      and m = "[''AudioFormat'' \<mapsto> ''1'', ''NumChannels'' \<mapsto> ''2'', ''SampleRate'' \<mapsto> ''44100'',
       ''ByteRate'' \<mapsto> ''176400'', ''BlockAlign'' \<mapsto> ''4'', ''BitRate'' \<mapsto> ''16'']"
      and err = None and r' = "BytesReader []"
      and g = "Get \<lparr>length_wav = LittleEndian_Uint32 ''abcd'',
            metadata = [''AudioFormat'' \<mapsto> ''1'', ''NumChannels'' \<mapsto> ''2'', ''SampleRate'' \<mapsto> ''44100'',
       ''ByteRate'' \<mapsto> ''176400'', ''BlockAlign'' \<mapsto> ''4'', ''BitRate'' \<mapsto> ''16'']\<rparr>"
      and ?err3.0 = None and ?r3.0 = "BytesReader []"
      and s = "BytesReader (''RIFF'' @ ''abcd'' @ ''WAVE'' @ ''fmt ''
        @ [CHR 0x10, CHR 0x00, CHR 0x00, CHR 0x00]
        @ [CHR 0x01, CHR 0x00] @ [CHR 0x02, CHR 0x00]
        @ [CHR 0x44, CHR 0xAC, CHR 0x00, CHR 0x00] @ [CHR 0x10, CHR 0xB1, CHR 0x02, CHR 0x00]
        @ [CHR 0x04, CHR 0x00] @ [CHR 0x10, CHR 0x00])"
      and ?newID3.0 = newID3_absent and newID3' = newID3_absent
      and n = "[''AudioFormat'' \<mapsto> ''1'', ''NumChannels'' \<mapsto> ''2'', ''SampleRate'' \<mapsto> ''44100'',
       ''ByteRate'' \<mapsto> ''176400'', ''BlockAlign'' \<mapsto> ''4'', ''BitRate'' \<mapsto> ''16'']"
      and ?err2.0 = None and s' = "BytesReader []"
      and h = "Get \<lparr>length_wav = LittleEndian_Uint32 ''abcd'',
            metadata = [''AudioFormat'' \<mapsto> ''1'', ''NumChannels'' \<mapsto> ''2'', ''SampleRate'' \<mapsto> ''44100'',
       ''ByteRate'' \<mapsto> ''176400'', ''BlockAlign'' \<mapsto> ''4'', ''BitRate'' \<mapsto> ''16'']\<rparr>"
      and ?err4.0 = None and ?s4.0 = "BytesReader []"]
  by (simp add: Get_def)

end
